theory Spec2Isabelle
  imports Main
begin

section \<open>Errors and JavaScript values\<close>

text \<open>
  The source throws plain \<open>Error\<close> objects told apart by their message; every throw site
  of the modelled functions is one constructor. \<open>Rejected\<close> is a collaborator's call
  (validator, base chain, signer, aggregator, contract binding) that rejects or throws.
\<close>

datatype error =
    MustSpecifyGasLimit
  | MustSpecifyGasPrice
  | InvalidBlockTag
  | CallWasReverted
  | TxHashMismatch string string
  | FailedToProveVal
  | NodeNotOnChain
  | AssertedTxHadNoLogs
  | RollupAssertedNotFound string
  | DifferentAddress string string
  | LogPostHashMismatch string string
  | NodeHashMismatch string string
  | NullTypeError
  | InvalidResponse
  | HashMismatchFromProvider
  | NumericOverflow
  | Rejected string

text \<open>The taxonomy of section 7 of the specification, as names for the throw sites.\<close>

datatype errorClass =
    PreconditionError
  | IntegrityError
  | ProofInvalidError
  | CollaboratorFailure
  | LibraryFault

fun classify :: "error \<Rightarrow> errorClass" where
  "classify MustSpecifyGasLimit = PreconditionError"
| "classify MustSpecifyGasPrice = PreconditionError"
| "classify InvalidBlockTag = PreconditionError"
| "classify (TxHashMismatch a b) = IntegrityError"
| "classify FailedToProveVal = ProofInvalidError"
| "classify NodeNotOnChain = ProofInvalidError"
| "classify AssertedTxHadNoLogs = ProofInvalidError"
| "classify (RollupAssertedNotFound h) = ProofInvalidError"
| "classify (DifferentAddress a b) = ProofInvalidError"
| "classify (LogPostHashMismatch a b) = ProofInvalidError"
| "classify (NodeHashMismatch a b) = ProofInvalidError"
| "classify (Rejected m) = CollaboratorFailure"
| "classify CallWasReverted = LibraryFault"
| "classify NullTypeError = LibraryFault"
| "classify InvalidResponse = LibraryFault"
| "classify HashMismatchFromProvider = LibraryFault"
| "classify NumericOverflow = LibraryFault"

text \<open>
  A \<open>BigNumberish\<close> as the wallet tests it with \<open>!x\<close>: the number \<open>0\<close> is falsy, a
  \<open>BigNumber\<close> object is truthy whatever it holds.
\<close>

datatype bigNumberish = Num nat | Big nat

fun truthyBN :: "bigNumberish option \<Rightarrow> bool" where
  "truthyBN None = False"
| "truthyBN (Some (Num n)) = (n \<noteq> 0)"
| "truthyBN (Some (Big n)) = True"

section \<open>Hex strings (ethers utilities used by the source)\<close>

definition isHexDigit :: "char \<Rightarrow> bool" where
  "isHexDigit c = (c \<in> set ''0123456789abcdefABCDEF'')"

fun isHexString :: "string \<Rightarrow> bool" where
  "isHexString (a # b # rest) = (a = CHR ''0'' \<and> b = CHR ''x'' \<and> list_all isHexDigit rest)"
| "isHexString s = False"

definition hexDataLength :: "string \<Rightarrow> nat option" where
  "hexDataLength s =
     (if \<not> isHexString s \<or> length s mod 2 \<noteq> 0 then None else Some ((length s - 2) div 2))"

section \<open>wallet.ts: the sequence cache of ArbWallet\<close>

text \<open>
  \<open>seqCache\<close> is a JavaScript number, a double that holds an integer. \<open>x + 1\<close> and
  \<open>x - 1\<close> are exact up to \<open>2 ^ 53\<close>; above it the doubles are the even integers (up
  to \<open>2 ^ 54\<close>, then the multiples of 4, and so on) and the sum is rounded to the
  nearest of them, a tie going to the even significand. The two functions give the
  result for every integer that a double can hold.
\<close>

definition jsPlusOne :: "nat \<Rightarrow> nat" where
  "jsPlusOne n =
     (if n < 2 ^ 53 then n + 1
      else if n < 2 ^ 54 \<and> n mod 4 = 2 then n + 2
      else n)"

definition jsMinusOne :: "nat \<Rightarrow> nat" where
  "jsMinusOne n =
     (if n \<le> 2 ^ 53 then n - 1
      else if n < 2 ^ 54 \<and> n mod 4 = 2 then n - 2
      else n)"

record wallet =
  seqCache :: "nat option"
  pubkey :: "string option"

definition newWallet :: wallet where
  "newWallet = \<lparr> seqCache = None, pubkey = None \<rparr>"

text \<open>
  \<open>count\<close> is what \<open>provider.getTransactionCount(await this.getAddress())\<close> answers
  if it is asked at this call; the functions read it only on the branch that asks,
  the one \<open>!this.seqCache\<close> selects (no cached number, or the cached number \<open>0\<close>).
  The provider takes the count from \<open>BigNumber.toNumber()\<close>, which gives an integer
  below \<open>2 ^ 53\<close> or throws.
\<close>

definition generateSeq :: "error + nat \<Rightarrow> wallet \<Rightarrow> (error + nat) \<times> wallet" where
  "generateSeq count w =
     (let ask = (case count of
                   Inl e \<Rightarrow> (Inl e, w)
                 | Inr seq \<Rightarrow> (Inr seq, w\<lparr>seqCache := Some seq\<rparr>))
      in case seqCache w of
           None \<Rightarrow> ask
         | Some currentSeq \<Rightarrow> (if currentSeq = 0 then ask else (Inr currentSeq, w)))"

definition generateAndIncrementSeq :: "error + nat \<Rightarrow> wallet \<Rightarrow> (error + nat) \<times> wallet" where
  "generateAndIncrementSeq count w =
     (let ask = (case count of
                   Inl e \<Rightarrow> (Inl e, w)
                 | Inr seq \<Rightarrow> (Inr seq, w\<lparr>seqCache := Some (jsPlusOne seq)\<rparr>))
      in case seqCache w of
           None \<Rightarrow> ask
         | Some currentSeq \<Rightarrow>
             (if currentSeq = 0 then ask
              else (Inr currentSeq, w\<lparr>seqCache := Some (jsPlusOne currentSeq)\<rparr>)))"

text \<open>The catch block of \<open>sendTransactionMessage\<close>: \<open>if (this.seqCache) this.seqCache -= 1\<close>.\<close>

definition rollbackSeq :: "wallet \<Rightarrow> wallet" where
  "rollbackSeq w =
     (case seqCache w of
        Some n \<Rightarrow> (if n \<noteq> 0 then w\<lparr>seqCache := Some (jsMinusOne n)\<rparr> else w)
      | None \<Rightarrow> w)"

text \<open>
  Reservations one after the other; the list holds, for each call in turn, what the
  chain would answer at that moment. A failed reservation ends the run, as its
  exception would.
\<close>

fun reserveEach :: "(error + nat) list \<Rightarrow> wallet \<Rightarrow> (error + nat list) \<times> wallet" where
  "reserveEach [] w = (Inr [], w)"
| "reserveEach (count # later) w =
     (case generateAndIncrementSeq count w of
        (Inl e, w') \<Rightarrow> (Inl e, w')
      | (Inr seq, w') \<Rightarrow>
          (case reserveEach later w' of
             (Inl e, w'') \<Rightarrow> (Inl e, w'')
           | (Inr seqs, w'') \<Rightarrow> (Inr (seq # seqs), w'')))"

section \<open>wallet.ts: submitting a transaction message\<close>

text \<open>
  Modelled from the spec: \<open>L2Transaction\<close> is a class of message.ts, which is not
  among the sources. It is the specification's outgoing message (destination address,
  sequence number, value, payload, gas limit, gas price), built by the wallet from these
  six arguments; the wallet reads its fields \<open>destAddress\<close>, \<open>sequenceNum\<close>,
  \<open>payment\<close> and \<open>calldata\<close> and calls its methods \<open>messageID\<close>, \<open>batchHash\<close> and
  \<open>asData\<close>, which are parameters of a submission below.
\<close>

record l2Transaction =
  maxGas :: "bigNumberish option"
  gasPriceBid :: "bigNumberish option"
  sequenceNum :: nat
  destAddress :: string
  payment :: nat
  calldata :: string

record transactionRequest =
  req_to :: string
  req_value :: nat
  req_data :: string
  req_gasLimit :: "bigNumberish option"
  req_gasPrice :: "bigNumberish option"

text \<open>An \<open>ethers.utils.Transaction\<close>, the handle a submission returns.\<close>

record transaction =
  tx_data :: string
  tx_from :: string
  tx_gasLimit :: nat
  tx_gasPrice :: nat
  tx_hash :: string
  tx_nonce :: nat
  tx_to :: string
  tx_value :: nat
  tx_chainId :: nat

text \<open>
  The aggregator's \<open>sendTransaction\<close> is called and not awaited: either the call itself
  throws, or it hands back a promise whose later outcome (a rejection, or the
  acknowledgement) nothing reads.
\<close>

datatype aggregatorCall = Throws error | Promised "error + bool"

text \<open>What the wallet's collaborators answer during one submission.\<close>

record submission =
  providerAggregator :: bool
  providerChainId :: nat
  providerGetVmID :: "error + string"
  signerGetAddress :: "error + string"
  providerGetTransactionCount :: "error + nat"
  messageID :: "l2Transaction \<Rightarrow> string \<Rightarrow> string"
  batchHash :: "l2Transaction \<Rightarrow> string \<Rightarrow> string"
  asData :: "l2Transaction \<Rightarrow> string"
  signMessage :: "string \<Rightarrow> error + string"
  recoverPublicKey :: "string \<Rightarrow> string \<Rightarrow> error + string"
  aggregatorSendTransaction ::
    "string \<Rightarrow> nat \<Rightarrow> nat \<Rightarrow> string \<Rightarrow> string \<Rightarrow> string \<Rightarrow> aggregatorCall"
  sendL2Message :: "string \<Rightarrow> string \<Rightarrow> error + transaction"

text \<open>
  \<open>BaseProvider._wrapTransaction(tx, hash)\<close> of ethers: rejects a hash that is not 32
  bytes of hex data or that differs from \<open>tx.hash\<close>, and otherwise hands \<open>tx\<close> back
  (with a \<open>wait\<close> method added, which is not modelled).
\<close>

definition wrapTransaction :: "transaction \<Rightarrow> string \<Rightarrow> error + transaction" where
  "wrapTransaction tx hash =
     (if hexDataLength hash \<noteq> Some 32 then Inl InvalidResponse
      else if tx_hash tx \<noteq> hash then Inl HashMismatchFromProvider
      else Inr tx)"

text \<open>\<open>BigNumber.toNumber()\<close> throws beyond 53 bits.\<close>

definition toNumber :: "nat \<Rightarrow> error + nat" where
  "toNumber n = (if n < 2 ^ 53 then Inr n else Inl NumericOverflow)"

text \<open>The body of the \<open>try\<close> block, aggregator branch.\<close>

definition sendViaAggregator ::
  "submission \<Rightarrow> string \<Rightarrow> string \<Rightarrow> l2Transaction \<Rightarrow> wallet \<Rightarrow> (error + transaction) \<times> wallet" where
  "sendViaAggregator env vmId from l2tx w =
     (let arbTxHash = messageID env l2tx from;
          batchTxHash = batchHash env l2tx vmId
      in case signMessage env batchTxHash of
           Inl e \<Rightarrow> (Inl e, w)
         | Inr sig \<Rightarrow>
             (case (case pubkey w of
                      None \<Rightarrow> recoverPublicKey env batchTxHash sig
                    | Some cached \<Rightarrow>
                        (if cached = [] then recoverPublicKey env batchTxHash sig
                         else Inr cached)) of
                Inl e \<Rightarrow> (Inl e, w)
              | Inr k \<Rightarrow>
                  (let w' = w\<lparr>pubkey := Some k\<rparr>
                   in case aggregatorSendTransaction env (destAddress l2tx) (sequenceNum l2tx)
                             (payment l2tx) (calldata l2tx) k sig of
                        Throws e \<Rightarrow> (Inl e, w')
                      | Promised outcome \<Rightarrow>
                          (case toNumber (sequenceNum l2tx) of
                             Inl e \<Rightarrow> (Inl e, w')
                           | Inr nonce \<Rightarrow>
                               (wrapTransaction
                                  \<lparr> tx_data = calldata l2tx, tx_from = from,
                                    tx_gasLimit = 1, tx_gasPrice = 1,
                                    tx_hash = arbTxHash, tx_nonce = nonce,
                                    tx_to = destAddress l2tx, tx_value = payment l2tx,
                                    tx_chainId = providerChainId env \<rparr> arbTxHash, w')))))"

text \<open>The body of the \<open>try\<close> block, global-inbox branch.\<close>

definition sendViaInbox ::
  "submission \<Rightarrow> string \<Rightarrow> l2Transaction \<Rightarrow> wallet \<Rightarrow> (error + transaction) \<times> wallet" where
  "sendViaInbox env vmId l2tx w =
     (case sendL2Message env vmId (asData env l2tx) of
        Inl e \<Rightarrow> (Inl e, w)
      | Inr tx \<Rightarrow> (wrapTransaction tx (tx_hash tx), w))"

text \<open>
  \<open>sendTransactionMessage\<close>: \<open>getVmID\<close> and \<open>getAddress\<close> are awaited before the
  \<open>try\<close>; an error of the \<open>try\<close> block passes through the \<open>catch\<close>, which rolls the
  sequence cache back and throws the error again.
\<close>

definition sendTransactionMessage ::
  "submission \<Rightarrow> l2Transaction \<Rightarrow> wallet \<Rightarrow> (error + transaction) \<times> wallet" where
  "sendTransactionMessage env l2tx w =
     (case providerGetVmID env of
        Inl e \<Rightarrow> (Inl e, w)
      | Inr vmId \<Rightarrow>
          (case signerGetAddress env of
             Inl e \<Rightarrow> (Inl e, w)
           | Inr from \<Rightarrow>
               (case (if providerAggregator env then sendViaAggregator env vmId from l2tx w
                      else sendViaInbox env vmId l2tx w) of
                  (Inl err, w') \<Rightarrow> (Inl err, rollbackSeq w')
                | (Inr tx, w') \<Rightarrow> (Inr tx, w'))))"

definition sendTransaction ::
  "submission \<Rightarrow> transactionRequest \<Rightarrow> wallet \<Rightarrow> (error + transaction) \<times> wallet" where
  "sendTransaction env request w =
     (if \<not> truthyBN (req_gasLimit request) then (Inl MustSpecifyGasLimit, w)
      else if \<not> truthyBN (req_gasPrice request) then (Inl MustSpecifyGasPrice, w)
      else case generateAndIncrementSeq (providerGetTransactionCount env) w of
             (Inl e, w') \<Rightarrow> (Inl e, w')
           | (Inr seq, w') \<Rightarrow>
               sendTransactionMessage env
                 \<lparr> maxGas = req_gasLimit request, gasPriceBid = req_gasPrice request,
                   sequenceNum = seq, destAddress = req_to request,
                   payment = req_value request, calldata = req_data request \<rparr> w')"

section \<open>provider.ts: data\<close>

text \<open>The provider module, which wallet.ts imports as \<open>./provider\<close>.\<close>

definition EB_EVENT_CDA :: string where "EB_EVENT_CDA = ''RollupAsserted''"
definition TransactionMessageDelivered :: string where
  "TransactionMessageDelivered = ''TransactionMessageDelivered''"
definition EthDepositMessageDelivered :: string where
  "EthDepositMessageDelivered = ''EthDepositMessageDelivered''"
definition ERC20DepositMessageDelivered :: string where
  "ERC20DepositMessageDelivered = ''ERC20DepositMessageDelivered''"
definition ERC721DepositMessageDelivered :: string where
  "ERC721DepositMessageDelivered = ''ERC721DepositMessageDelivered''"

definition ARB_SYS_ADDRESS :: string where
  "ARB_SYS_ADDRESS = ''0x0000000000000000000000000000000000000064''"
definition ARB_INFO_ADDRESS :: string where
  "ARB_INFO_ADDRESS = ''0x0000000000000000000000000000000000000065''"

text \<open>A log of a base-chain receipt, and what a contract interface's \<open>parseLog\<close> makes of it.\<close>

record rawLog =
  log_address :: string
  log_topics :: "string list"
  log_data :: string

record eventValues =
  ev_to :: string
  ev_from :: string
  ev_seqNumber :: nat
  ev_value :: nat
  ev_data :: string
  ev_messageNum :: nat
  ev_fields :: "string list"

record logDescription =
  ev_name :: string
  ev_values :: eventValues

record transactionReceipt =
  rc_logs :: "rawLog list option"
  rc_confirmations :: "nat option"

text \<open>
  Modelled from the spec: \<open>NodeInfo\<close> and \<open>AVMProof\<close> are declared in client.ts,
  which is not among the sources. A node has its hash and height, the base-chain
  transaction that asserted it (absent while it is not asserted) and a confirmation
  count (filled in after verification); a proof has \<open>logPreHash\<close>, the ordered sibling
  hashes and \<open>logPostHash\<close>. The field names are those the provider reads.
\<close>

record nodeInfo =
  nodeHash :: string
  nodeHeight :: nat
  l1TxHash :: "string option"
  l1Confirmations :: "nat option"

record avmProof =
  logPreHash :: string
  logPostHash :: string
  logValHashes :: "string list"

text \<open>
  Modelled from the spec: \<open>Result\<close> and \<open>ResultCode\<close> belong to message.ts, which is
  not among the sources. A result has an outcome code (success, reverted, or another
  terminal code), return data and the incoming message it answers. The modelled
  functions read the code and the return data and call \<open>incoming.messageID()\<close>; the
  incoming message stays abstract (\<open>'i\<close>), as does the validator's value (\<open>'v\<close>).
\<close>

datatype resultCode = Return | Revert | OtherCode nat

record 'i result =
  resultCode :: resultCode
  returnData :: string
  incoming :: 'i

record 'v rawMessageResult =
  raw_val :: 'v
  raw_nodeInfo :: "nodeInfo option"
  raw_proof :: "avmProof option"

record 'i messageResult =
  mr_result :: "'i result"
  mr_txHash :: string
  mr_nodeInfo :: "nodeInfo option"

record l2Call =
  call_maxGas :: "bigNumberish option"
  call_gasPriceBid :: "bigNumberish option"
  call_destAddress :: string
  call_data :: string

text \<open>
  What the provider's collaborators answer: the validator client, the base-chain
  provider, the contract bindings and the hashing and decoding helpers. A connection is
  represented by the \<open>parseLog\<close> of its interface. For the inbox, \<open>parseLog\<close> gives
  the decoded event, \<open>null\<close> for a log whose topic the interface does not know, or
  throws, as ethers does for a log with a known topic whose data it cannot decode. The
  hash functions are total here: they are applied to well-formed 32-byte values.
\<close>

record ('v, 'i) provider =
  deterministicAssertions :: bool
  vmIdCache :: "string option"
  clientGetVmID :: "error + string"
  ethGetTransactionReceipt :: "string \<Rightarrow> error + transactionReceipt option"
  ethWaitForTransaction :: "string \<Rightarrow> error + transactionReceipt"
  globalInboxConn :: "error + (rawLog \<Rightarrow> error + logDescription option)"
  arbRollupConn :: "error + (rawLog \<Rightarrow> logDescription option)"
  clientGetMessageResult :: "string \<Rightarrow> error + 'v rawMessageResult option"
  clientCall :: "l2Call \<Rightarrow> string option \<Rightarrow> error + 'v"
  clientPendingCall :: "l2Call \<Rightarrow> string option \<Rightarrow> error + 'v"
  fromValue :: "'v \<Rightarrow> error + 'i result"
  valueHash :: "'v \<Rightarrow> string"
  incomingMessageID :: "'i \<Rightarrow> string"
  calculateTransactionHash ::
    "string \<Rightarrow> string \<Rightarrow> string \<Rightarrow> nat \<Rightarrow> nat \<Rightarrow> string \<Rightarrow> string"
  solidityKeccak256 :: "string \<Rightarrow> string \<Rightarrow> string"
  arbInfoGetCode :: "string \<Rightarrow> error + string"

text \<open>
  \<open>getVmID\<close>: the cached id when there is one, else the validator's answer. The write
  to the cache is left out: the answers above do not change between calls.
\<close>

definition getVmID :: "('v, 'i) provider \<Rightarrow> error + string" where
  "getVmID env =
     (case vmIdCache env of
        None \<Rightarrow> clientGetVmID env
      | Some cached \<Rightarrow> (if cached = [] then clientGetVmID env else Inr cached))"

section \<open>Hex encoding of a message number\<close>

text \<open>
  \<open>BigNumber.toHexString()\<close> and \<open>hexZeroPad\<close> of ethers: lower-case digits, an even
  number of them, then zeros put in front until the string has \<open>2 * length + 2\<close>
  characters.
\<close>

definition hexDigit :: "nat \<Rightarrow> char" where
  \<comment> \<open>only ever applied to a number below 16\<close>
  "hexDigit d = ''0123456789abcdef'' ! d"

fun hexOf :: "nat \<Rightarrow> string" where
  "hexOf n = (if n < 16 then [hexDigit n] else hexOf (n div 16) @ [hexDigit (n mod 16)])"

declare hexOf.simps [simp del]

definition toHexString :: "nat \<Rightarrow> string" where
  "toHexString n =
     (let v = hexOf n in if length v mod 2 = 1 then ''0x0'' @ v else ''0x'' @ v)"

function hexZeroPadLoop :: "string \<Rightarrow> nat \<Rightarrow> string" where
  "hexZeroPadLoop v len =
     (if length v < 2 * len + 2 then hexZeroPadLoop (''0x0'' @ drop 2 v) len else v)"
  by pat_completeness auto
termination
  by (relation "measure (\<lambda>(v, len). 2 * len + 2 - length v)") auto

declare hexZeroPadLoop.simps [simp del]

definition hexZeroPad :: "string \<Rightarrow> nat \<Rightarrow> error + string" where
  "hexZeroPad v len = (if \<not> isHexString v then Inl (Rejected ''invalid hex string'')
                       else Inr (hexZeroPadLoop v len))"



section \<open>provider.ts: from a base-chain receipt to the rollup message id\<close>

text \<open>The \<open>for\<close> loop of \<open>getArbTxId\<close> over the parsed logs.\<close>

fun scanLogs :: "('v, 'i) provider \<Rightarrow> logDescription option list \<Rightarrow> error + string option" where
  "scanLogs env [] = Inr None"
| "scanLogs env (None # rest) = scanLogs env rest"
| "scanLogs env (Some lg # rest) =
     (if ev_name lg = TransactionMessageDelivered then
        (case getVmID env of
           Inl e \<Rightarrow> Inl e
         | Inr vmId \<Rightarrow>
             Inr (Some (calculateTransactionHash env vmId
                          (ev_to (ev_values lg)) (ev_from (ev_values lg))
                          (ev_seqNumber (ev_values lg)) (ev_value (ev_values lg))
                          (ev_data (ev_values lg)))))
      else if ev_name lg = EthDepositMessageDelivered
              \<or> ev_name lg = ERC20DepositMessageDelivered
              \<or> ev_name lg = ERC721DepositMessageDelivered then
        (case hexZeroPad (toHexString (ev_messageNum (ev_values lg))) 32 of
           Inl e \<Rightarrow> Inl e
         | Inr padded \<Rightarrow> Inr (Some padded))
      else scanLogs env rest)"

text \<open>
  \<open>ethReceipt.logs.map(log => globalInbox.interface.parseLog(log))\<close>: every log is
  decoded, in order, before the loop looks at any of them; the first log whose decoding
  throws ends \<open>getArbTxId\<close> with that error.
\<close>

fun parseLogs ::
  "(rawLog \<Rightarrow> error + logDescription option) \<Rightarrow> rawLog list
     \<Rightarrow> error + logDescription option list" where
  "parseLogs parseLog [] = Inr []"
| "parseLogs parseLog (l # ls) =
     (case parseLog l of
        Inl e \<Rightarrow> Inl e
      | Inr ev \<Rightarrow>
          (case parseLogs parseLog ls of
             Inl e \<Rightarrow> Inl e
           | Inr evs \<Rightarrow> Inr (ev # evs)))"

definition getArbTxId :: "('v, 'i) provider \<Rightarrow> transactionReceipt \<Rightarrow> error + string option" where
  "getArbTxId env ethReceipt =
     (case globalInboxConn env of
        Inl e \<Rightarrow> Inl e
      | Inr parseLog \<Rightarrow>
          (case rc_logs ethReceipt of
             None \<Rightarrow> Inr None
           | Some lgs \<Rightarrow>
               (case parseLogs parseLog lgs of
                  Inl e \<Rightarrow> Inl e
                | Inr logs \<Rightarrow> scanLogs env logs)))"

section \<open>provider.ts: verifying a result\<close>

text \<open>\<open>Array.prototype.reduce\<close> with an initial value.\<close>

fun reduce :: "('b \<Rightarrow> 'a \<Rightarrow> 'b) \<Rightarrow> 'a list \<Rightarrow> 'b \<Rightarrow> 'b" where
  "reduce f [] acc = acc"
| "reduce f (x # xs) acc = reduce f xs (f acc x)"

definition processLogsProof :: "('v, 'i) provider \<Rightarrow> 'v \<Rightarrow> avmProof \<Rightarrow> bool" where
  "processLogsProof env v prf =
     (let startHash = solidityKeccak256 env (logPreHash prf) (valueHash env v);
          checkHash = reduce (\<lambda>acc h. solidityKeccak256 env acc h) (logValHashes prf) startHash
      in logPostHash prf = checkHash)"

text \<open>\<open>String.prototype.toLowerCase\<close> on the ASCII letters, which is what an address holds.\<close>

definition lowerChar :: "char \<Rightarrow> char" where
  "lowerChar c =
     (if 65 \<le> (of_char c :: nat) \<and> (of_char c :: nat) \<le> 90
      then char_of ((of_char c :: nat) + 32) else c)"

definition toLowerCase :: "string \<Rightarrow> string" where
  "toLowerCase s = map lowerChar s"

text \<open>Reading an array at an index: \<open>undefined\<close> out of range.\<close>

fun element :: "'a list \<Rightarrow> nat \<Rightarrow> 'a option" where
  "element [] i = None"
| "element (x # xs) 0 = Some x"
| "element (x # xs) (Suc i) = element xs i"

text \<open>
  \<open>events.findIndex(event => event.name === EB_EVENT_CDA)\<close> followed by the reads of
  \<open>receipt.logs\<close> and \<open>events\<close> at that index: the first log whose parsed event is
  named \<open>RollupAsserted\<close>, with that event. A log that the interface does not parse
  gives \<open>null\<close>, and reading \<open>name\<close> of it throws before any later log is looked at.
\<close>

fun findAsserted ::
  "(rawLog \<Rightarrow> logDescription option) \<Rightarrow> rawLog list \<Rightarrow> error + (rawLog \<times> logDescription) option" where
  "findAsserted parseLog [] = Inr None"
| "findAsserted parseLog (l # ls) =
     (case parseLog l of
        None \<Rightarrow> Inl NullTypeError
      | Some event \<Rightarrow>
          (if ev_name event = EB_EVENT_CDA then Inr (Some (l, event))
           else findAsserted parseLog ls))"

definition processConfirmedDisputableAssertion ::
  "('v, 'i) provider \<Rightarrow> nodeInfo \<Rightarrow> avmProof \<Rightarrow> error + transactionReceipt" where
  "processConfirmedDisputableAssertion env ni prf =
     (case l1TxHash ni of
        None \<Rightarrow> Inl NodeNotOnChain
      | Some l1 \<Rightarrow>
     (case ethWaitForTransaction env l1 of
        Inl e \<Rightarrow> Inl e
      | Inr receipt \<Rightarrow>
     (case rc_logs receipt of
        None \<Rightarrow> Inl AssertedTxHadNoLogs
      | Some lgs \<Rightarrow>
     (case arbRollupConn env of
        Inl e \<Rightarrow> Inl e
      | Inr parseLog \<Rightarrow>
     (case findAsserted parseLog lgs of
        Inl e \<Rightarrow> Inl e
      | Inr None \<Rightarrow> Inl (RollupAssertedNotFound l1)
      | Inr (Some (rawLg, cda)) \<Rightarrow>
     (case getVmID env of
        Inl e \<Rightarrow> Inl e
      | Inr vmId \<Rightarrow>
          (if toLowerCase (log_address rawLg) \<noteq> toLowerCase vmId then
             Inl (DifferentAddress (log_address rawLg) vmId)
           else if element (ev_fields (ev_values cda)) 6 \<noteq> Some (logPostHash prf) then
             Inl (LogPostHashMismatch
                    (case element (ev_fields (ev_values cda)) 6 of
                       Some h \<Rightarrow> h | None \<Rightarrow> ''undefined'')
                    (logPostHash prf))
           else if element (ev_fields (ev_values cda)) 7 \<noteq> Some (nodeHash ni) then
             Inl (NodeHashMismatch
                    (case element (ev_fields (ev_values cda)) 7 of
                       Some h \<Rightarrow> h | None \<Rightarrow> ''undefined'')
                    (nodeHash ni))
           else Inr receipt)))))))"

section \<open>provider.ts: resolving an identifier\<close>

text \<open>
  \<open>getMessageResult\<close> in its two halves. Lines 239 to 286: from the rollup message id
  to the result, verified when the validator sent a proof and the node's base-chain
  transaction.
\<close>

definition fetchMessageResult ::
  "('v, 'i) provider \<Rightarrow> string \<Rightarrow> error + 'i messageResult option" where
  "fetchMessageResult env arbTxHash =
     (case clientGetMessageResult env arbTxHash of
        Inl e \<Rightarrow> Inl e
      | Inr None \<Rightarrow> Inr None
      | Inr (Some rawResult) \<Rightarrow>
     (case fromValue env (raw_val rawResult) of
        Inl e \<Rightarrow> Inl e
      | Inr res \<Rightarrow>
          (let txHashCheck = incomingMessageID env (incoming res);
               unconfirmed = \<lparr> mr_result = res, mr_txHash = arbTxHash,
                               mr_nodeInfo = raw_nodeInfo rawResult \<rparr>
           in if arbTxHash \<noteq> txHashCheck then Inl (TxHashMismatch arbTxHash txHashCheck)
              else
                (case raw_proof rawResult of
                   None \<Rightarrow> Inr (Some unconfirmed)
                 | Some prf \<Rightarrow>
                (case raw_nodeInfo rawResult of
                   None \<Rightarrow> Inl NullTypeError
                 | Some ni \<Rightarrow>
                     (if l1TxHash ni = None then Inr (Some unconfirmed)
                      else if \<not> processLogsProof env (raw_val rawResult) prf then
                        Inl FailedToProveVal
                      else
                        (case processConfirmedDisputableAssertion env ni prf of
                           Inl e \<Rightarrow> Inl e
                         | Inr receipt \<Rightarrow>
                             Inr (Some \<lparr> mr_result = res, mr_txHash = arbTxHash,
                                         mr_nodeInfo =
                                           Some (ni\<lparr>l1Confirmations :=
                                                      rc_confirmations receipt\<rparr>) \<rparr>))))))))"

text \<open>
  Lines 225 to 237: the rollup message id that the identifier stands for. \<open>None\<close> is
  the early \<open>return null\<close> (\<open>!arbTxId\<close>: no id, or the empty string).
\<close>

definition resolveArbTxHash :: "('v, 'i) provider \<Rightarrow> string \<Rightarrow> error + string option" where
  "resolveArbTxHash env txHash =
     (case ethGetTransactionReceipt env txHash of
        Inl e \<Rightarrow> Inl e
      | Inr None \<Rightarrow> Inr (Some txHash)
      | Inr (Some ethReceipt) \<Rightarrow>
          (case getArbTxId env ethReceipt of
             Inl e \<Rightarrow> Inl e
           | Inr None \<Rightarrow> Inr None
           | Inr (Some arbTxId) \<Rightarrow> (if arbTxId = [] then Inr None else Inr (Some arbTxId))))"

definition getMessageResult ::
  "('v, 'i) provider \<Rightarrow> string \<Rightarrow> error + 'i messageResult option" where
  "getMessageResult env txHash =
     (case resolveArbTxHash env txHash of
        Inl e \<Rightarrow> Inl e
      | Inr None \<Rightarrow> Inr None
      | Inr (Some arbTxHash) \<Rightarrow> fetchMessageResult env arbTxHash)"

section \<open>provider.ts: the facade\<close>

text \<open>The \<open>getCode\<close> case of \<open>perform\<close>.\<close>

definition perform_getCode :: "('v, 'i) provider \<Rightarrow> string \<Rightarrow> error + string" where
  "perform_getCode env addr =
     (if addr = ARB_SYS_ADDRESS \<or> addr = ARB_INFO_ADDRESS then Inr ''0x100''
      else arbInfoGetCode env addr)"

text \<open>
  A block tag is a string or a number (\<open>BlockTag\<close>), handed to \<open>call\<close> as it is or as
  a promise of it, or left out. \<open>takenTag\<close> is the test \<open>if (blockTag)\<close> with the
  \<open>await\<close> after it: a promise is an object and passes the test; the empty string
  and the number \<open>0\<close> do not.
\<close>

datatype blockTag = TagString string | TagNumber int

datatype 'a awaitable = Plain 'a | Promise 'a

fun takenTag :: "blockTag awaitable option \<Rightarrow> blockTag option" where
  "takenTag None = None"
| "takenTag (Some (Promise t)) = Some t"
| "takenTag (Some (Plain (TagString s))) = (if s = [] then None else Some (TagString s))"
| "takenTag (Some (Plain (TagNumber n))) = (if n = 0 then None else Some (TagNumber n))"

record callRequest =
  creq_from :: "string option"
  creq_to :: string
  creq_data :: string
  creq_gasLimit :: "bigNumberish option"
  creq_gasPrice :: "bigNumberish option"

definition call ::
  "('v, 'i) provider \<Rightarrow> callRequest \<Rightarrow> blockTag awaitable option \<Rightarrow> error + string" where
  "call env request blockTagArg =
     (let from = creq_from request;
          tx = \<lparr> call_maxGas = creq_gasLimit request, call_gasPriceBid = creq_gasPrice request,
                 call_destAddress = creq_to request, call_data = creq_data request \<rparr>;
          callLatest = (if deterministicAssertions env then clientPendingCall env tx from
                        else clientCall env tx from)
      in case (case takenTag blockTagArg of
                 None \<Rightarrow> callLatest
               | Some (TagString tag) \<Rightarrow>
                   (if tag = ''pending'' then clientPendingCall env tx from
                    else if tag = ''latest'' then callLatest
                    else Inl InvalidBlockTag)
               | Some (TagNumber n) \<Rightarrow> Inl InvalidBlockTag) of
           Inl e \<Rightarrow> Inl e
         | Inr resultVal \<Rightarrow>
             (case fromValue env resultVal of
                Inl e \<Rightarrow> Inl e
              | Inr res \<Rightarrow>
                  (if resultCode res \<noteq> Return then Inl CallWasReverted
                   else Inr (returnData res))))"

section \<open>Delivery events, as the statements below speak of them\<close>



section \<open>Example environments\<close>

text \<open>
  A small world for the provider: one inbox transaction on the base chain that delivered
  a transaction message and then an ETH deposit, one assertion transaction, and a
  validator that knows two results. Values and incoming messages are represented by the
  message id they carry, and the two hash functions by stand-ins.
\<close>

definition L1_HASH :: string where
  "L1_HASH = ''0x1111111111111111111111111111111111111111111111111111111111111111''"
definition ROLLUP_ID :: string where
  "ROLLUP_ID = ''0x2222222222222222222222222222222222222222222222222222222222222222''"
definition PENDING_ID :: string where
  "PENDING_ID = ''0x3333333333333333333333333333333333333333333333333333333333333333''"
definition ASSERTION_TX :: string where
  "ASSERTION_TX = ''0x4444444444444444444444444444444444444444444444444444444444444444''"
definition ROLLUP_ADDRESS :: string where
  "ROLLUP_ADDRESS = ''0xC1C1c1c1C1c1C1c1C1c1c1c1C1c1c1c1C1c1C1c1''"
definition NODE_HASH :: string where
  "NODE_HASH = ''0x5555555555555555555555555555555555555555555555555555555555555555''"

definition someValues :: eventValues where
  "someValues =
     \<lparr> ev_to = ''0xb2'', ev_from = ''0xa1'', ev_seqNumber = 5, ev_value = 0,
       ev_data = ''0x'', ev_messageNum = 0, ev_fields = [] \<rparr>"

definition txLog :: rawLog where
  "txLog = \<lparr> log_address = ''0x1b'', log_topics = [''0x7a''], log_data = ''0x'' \<rparr>"
definition txEvent :: logDescription where
  "txEvent = \<lparr> ev_name = TransactionMessageDelivered, ev_values = someValues \<rparr>"

definition depositLog :: rawLog where
  "depositLog = \<lparr> log_address = ''0x1b'', log_topics = [''0xe7''], log_data = ''0x07'' \<rparr>"
definition depositEvent :: logDescription where
  "depositEvent =
     \<lparr> ev_name = EthDepositMessageDelivered, ev_values = someValues\<lparr>ev_messageNum := 7\<rparr> \<rparr>"

definition otherLog :: rawLog where
  "otherLog = \<lparr> log_address = ''0x1b'', log_topics = [''0x00''], log_data = ''0x'' \<rparr>"
definition otherEvent :: logDescription where
  "otherEvent = \<lparr> ev_name = ''PaymentTransfer'', ev_values = someValues \<rparr>"

text \<open>A log with the topic of \<open>otherLog\<close> whose data the interface cannot decode.\<close>

definition malformedLog :: rawLog where
  "malformedLog = \<lparr> log_address = ''0x1b'', log_topics = [''0x00''], log_data = ''0x0'' \<rparr>"

definition inboxParser :: "rawLog \<Rightarrow> error + logDescription option" where
  "inboxParser l =
     (if l = txLog then Inr (Some txEvent)
      else if l = depositLog then Inr (Some depositEvent)
      else if l = otherLog then Inr (Some otherEvent)
      else if l = malformedLog then Inl (Rejected ''data out-of-bounds'')
      else Inr None)"

definition validProof :: avmProof where
  "validProof =
     \<lparr> logPreHash = ''0x01'', logPostHash = ''0x01'' @ ROLLUP_ID @ ''0x02'',
       logValHashes = [''0x02''] \<rparr>"

definition bogusProof :: avmProof where
  "bogusProof = \<lparr> logPreHash = ''0x01'', logPostHash = ''0x09'', logValHashes = [] \<rparr>"

definition assertedLog :: rawLog where
  "assertedLog =
     \<lparr> log_address = ''0xc1c1c1c1c1c1c1c1c1c1c1c1c1c1c1c1c1c1c1c1'',
       log_topics = [''0xa5''], log_data = ''0x'' \<rparr>"
definition assertedEvent :: logDescription where
  "assertedEvent =
     \<lparr> ev_name = EB_EVENT_CDA,
       ev_values = someValues\<lparr>ev_fields :=
         [''0x'', ''0x'', ''0x'', ''0x'', ''0x'', ''0x'', logPostHash validProof, NODE_HASH]\<rparr> \<rparr>"

definition rollupParser :: "rawLog \<Rightarrow> logDescription option" where
  "rollupParser l = (if l = assertedLog then Some assertedEvent
                     else if l = otherLog then Some otherEvent else None)"

definition assertedNode :: nodeInfo where
  "assertedNode =
     \<lparr> nodeHash = NODE_HASH, nodeHeight = 12, l1TxHash = Some ASSERTION_TX,
       l1Confirmations = None \<rparr>"

definition exampleProvider :: "(string, string) provider" where
  "exampleProvider =
     \<lparr> deterministicAssertions = False, vmIdCache = None,
       clientGetVmID = Inr ROLLUP_ADDRESS,
       ethGetTransactionReceipt =
         (\<lambda>h. Inr (if h = L1_HASH
                    then Some \<lparr> rc_logs = Some [otherLog, txLog, depositLog],
                                rc_confirmations = Some 3 \<rparr>
                    else None)),
       ethWaitForTransaction =
         (\<lambda>h. Inr \<lparr> rc_logs = Some [otherLog, assertedLog], rc_confirmations = Some 8 \<rparr>),
       globalInboxConn = Inr inboxParser,
       arbRollupConn = Inr rollupParser,
       clientGetMessageResult =
         (\<lambda>i. Inr (if i = ROLLUP_ID
                    then Some \<lparr> raw_val = ROLLUP_ID, raw_nodeInfo = Some assertedNode,
                                raw_proof = Some validProof \<rparr>
                    else if i = PENDING_ID
                    then Some \<lparr> raw_val = PENDING_ID,
                                raw_nodeInfo = Some (assertedNode\<lparr>l1TxHash := None\<rparr>),
                                raw_proof = Some bogusProof \<rparr>
                    else None)),
       clientCall = (\<lambda>tx from. Inr ROLLUP_ID),
       clientPendingCall = (\<lambda>tx from. Inr PENDING_ID),
       fromValue = (\<lambda>v. Inr \<lparr> resultCode = Return, returnData = ''0x2a'', incoming = v \<rparr>),
       valueHash = (\<lambda>v. v),
       incomingMessageID = (\<lambda>i. i),
       calculateTransactionHash = (\<lambda>vm t f sq vl d. ROLLUP_ID),
       solidityKeccak256 = (\<lambda>a b. a @ b),
       arbInfoGetCode = (\<lambda>a. Inr ''0x6080'') \<rparr>"

definition UNKNOWN_ID :: string where
  "UNKNOWN_ID = ''0x7777777777777777777777777777777777777777777777777777777777777777''"


text \<open>A validator that answers every query with the result of another message.\<close>

definition forgingValidator :: "(string, string) provider" where
  "forgingValidator =
     exampleProvider\<lparr>clientGetMessageResult :=
       (\<lambda>i. Inr (Some \<lparr> raw_val = PENDING_ID, raw_nodeInfo = None, raw_proof = None \<rparr>))\<rparr>"

text \<open>A validator whose proof does not add up, for a node that is on the base chain.\<close>

definition lyingValidator :: "(string, string) provider" where
  "lyingValidator =
     exampleProvider\<lparr>clientGetMessageResult :=
       (\<lambda>i. Inr (Some \<lparr> raw_val = ROLLUP_ID, raw_nodeInfo = Some assertedNode,
                          raw_proof = Some bogusProof \<rparr>))\<rparr>"

text \<open>A validator whose proof adds up, but that names a node hash the chain did not assert.\<close>

definition wrongNode :: nodeInfo where
  "wrongNode = assertedNode\<lparr>nodeHash :=
     ''0x6666666666666666666666666666666666666666666666666666666666666666''\<rparr>"

definition wrongNodeValidator :: "(string, string) provider" where
  "wrongNodeValidator =
     exampleProvider\<lparr>clientGetMessageResult :=
       (\<lambda>i. Inr (Some \<lparr> raw_val = ROLLUP_ID, raw_nodeInfo = Some wrongNode,
                          raw_proof = Some validProof \<rparr>))\<rparr>"

text \<open>A wallet without aggregator whose inbox transaction is rejected by the base chain.\<close>

definition inboxRejects :: submission where
  "inboxRejects =
     \<lparr> providerAggregator = False, providerChainId = 123456789,
       providerGetVmID = Inr ROLLUP_ADDRESS, signerGetAddress = Inr ''0xa1'',
       providerGetTransactionCount = Inr 5,
       messageID = (\<lambda>t sender. ''0x01''), batchHash = (\<lambda>t vm. ''0x02''),
       asData = (\<lambda>t. ''0x03''),
       signMessage = (\<lambda>h. Inr ''0x51''), recoverPublicKey = (\<lambda>h sg. Inr ''0x04''),
       aggregatorSendTransaction = (\<lambda>d n v c k sg. Promised (Inr True)),
       sendL2Message = (\<lambda>vm d. Inl (Rejected ''insufficient funds'')) \<rparr>"

definition plainRequest :: transactionRequest where
  "plainRequest =
     \<lparr> req_to = ''0xb2'', req_value = 0, req_data = ''0x'',
       req_gasLimit = Some (Num 100000), req_gasPrice = Some (Big 1) \<rparr>"

text \<open>Two wallets whose submission succeeds: through the inbox, and through an aggregator.\<close>

definition someL2Transaction :: l2Transaction where
  "someL2Transaction =
     \<lparr> maxGas = Some (Num 100000), gasPriceBid = Some (Big 1), sequenceNum = 5,
       destAddress = ''0xb2'',
       payment = 0, calldata = ''0x'' \<rparr>"

definition inboxTransaction :: transaction where
  "inboxTransaction =
     \<lparr> tx_data = ''0x03'', tx_from = ''0xa1'', tx_gasLimit = 100000, tx_gasPrice = 1,
       tx_hash = L1_HASH, tx_nonce = 41, tx_to = ''0x1b'', tx_value = 0, tx_chainId = 1 \<rparr>"

definition inboxAccepts :: submission where
  "inboxAccepts =
     inboxRejects\<lparr>messageID := (\<lambda>t sender. ROLLUP_ID),
                  sendL2Message := (\<lambda>vm d. Inr inboxTransaction)\<rparr>"

definition aggregatorAccepts :: submission where
  "aggregatorAccepts = inboxAccepts\<lparr>providerAggregator := True\<rparr>"

text \<open>
  A wallet that has reserved before, and two submissions that do not go through: one
  whose signer cannot be reached for its address, one whose aggregator turns the
  transaction down after the call has returned its promise.
\<close>

definition warmWallet :: wallet where
  "warmWallet = \<lparr> seqCache = Some 5, pubkey = None \<rparr>"

definition addressUnavailable :: submission where
  "addressUnavailable = inboxAccepts\<lparr>signerGetAddress := Inl (Rejected ''network error'')\<rparr>"

definition aggregatorUnreachable :: submission where
  "aggregatorUnreachable =
     aggregatorAccepts\<lparr>aggregatorSendTransaction :=
       (\<lambda>d n v c k sg. Promised (Inl (Rejected ''connection refused'')))\<rparr>"



section \<open>The sequence cache\<close>

lemma jsPlusOne_exact: "n < 2 ^ 53 \<Longrightarrow> jsPlusOne n = n + 1"
  by (simp add: jsPlusOne_def)

lemma jsMinusOne_exact: "n \<le> 2 ^ 53 \<Longrightarrow> jsMinusOne n = n - 1"
  by (simp add: jsMinusOne_def)

lemma jsPlusOne_stuck: "jsPlusOne (2 ^ 53) = 2 ^ 53"
  by (simp add: jsPlusOne_def)

lemma warm_reserveEach:
  "seqCache w = Some k \<Longrightarrow> k \<noteq> 0 \<Longrightarrow> k + length later \<le> 2 ^ 53 \<Longrightarrow>
   reserveEach (count # later) w =
     (Inr [k ..< k + Suc (length later)],
      w\<lparr>seqCache := Some (jsPlusOne (k + length later))\<rparr>)"
proof (induction later arbitrary: w k count)
  case Nil
  then show ?case by (simp add: generateAndIncrementSeq_def)
next
  case (Cons nxt later)
  have below: "k < 2 ^ 53" using Cons.prems(3) by simp
  have step: "generateAndIncrementSeq count w = (Inr k, w\<lparr>seqCache := Some (k + 1)\<rparr>)"
    using Cons.prems(1,2) below by (simp add: generateAndIncrementSeq_def jsPlusOne_exact)
  have rest: "reserveEach (nxt # later) (w\<lparr>seqCache := Some (k + 1)\<rparr>) =
      (Inr [k + 1 ..< k + 1 + Suc (length later)],
       w\<lparr>seqCache := Some (jsPlusOne (k + 1 + length later))\<rparr>)"
    using Cons.IH [of "w\<lparr>seqCache := Some (k + 1)\<rparr>" "k + 1" nxt] Cons.prems(3) by simp
  have "reserveEach (count # nxt # later) w =
      (Inr (k # [k + 1 ..< k + 1 + Suc (length later)]),
       w\<lparr>seqCache := Some (jsPlusOne (k + 1 + length later))\<rparr>)"
    using step rest by (simp del: reserveEach.simps add: reserveEach.simps(2) [of count])
  moreover have "[k ..< k + Suc (length (nxt # later))] =
      k # [k + 1 ..< k + 1 + Suc (length later)]"
    by (simp add: upt_conv_Cons del: upt_Suc)
  moreover have "k + length (nxt # later) = k + 1 + length later" by simp
  ultimately show ?case by (simp only:)
qed

text \<open>
  C7, in the form that holds. From a cold cache (\<open>seqCache\<close> undefined) the first
  reservation takes the chain's answer \<open>initialCount\<close>; the reservations after it are
  served from the cache: whatever the chain would answer at those later calls
  (\<open>later\<close>, a failing call included) is not read. As long as the numbers stay where a
  JavaScript number is exact (\<open>initialCount + N - 1 \<le> 2 ^ 53\<close> for the
  \<open>N = 1 + length later\<close> reservations), they return exactly
  \<open>initialCount, ..., initialCount + N - 1\<close>.
\<close>

theorem cold_cache_reservations_contiguous:
  assumes cold: "seqCache w = None"
    and exact: "initialCount + length later \<le> 2 ^ 53"
  shows "reserveEach (Inr initialCount # later) w =
     (Inr [initialCount ..< initialCount + Suc (length later)],
      w\<lparr>seqCache := Some (jsPlusOne (initialCount + length later))\<rparr>)"
proof (cases later)
  case Nil
  then show ?thesis using cold by (simp add: generateAndIncrementSeq_def)
next
  case (Cons nxt rest)
  have below: "initialCount < 2 ^ 53" using exact Cons by simp
  have first: "generateAndIncrementSeq (Inr initialCount) w =
      (Inr initialCount, w\<lparr>seqCache := Some (initialCount + 1)\<rparr>)"
    using cold below by (simp add: generateAndIncrementSeq_def jsPlusOne_exact)
  have served: "reserveEach (nxt # rest) (w\<lparr>seqCache := Some (initialCount + 1)\<rparr>) =
      (Inr [initialCount + 1 ..< initialCount + 1 + Suc (length rest)],
       w\<lparr>seqCache := Some (jsPlusOne (initialCount + 1 + length rest))\<rparr>)"
    using warm_reserveEach
      [of "w\<lparr>seqCache := Some (initialCount + 1)\<rparr>" "initialCount + 1" rest nxt]
      exact Cons
    by simp
  have "reserveEach (Inr initialCount # nxt # rest) w =
      (Inr (initialCount # [initialCount + 1 ..< initialCount + 1 + Suc (length rest)]),
       w\<lparr>seqCache := Some (jsPlusOne (initialCount + 1 + length rest))\<rparr>)"
    using first served
    by (simp del: reserveEach.simps add: reserveEach.simps(2) [of "Inr initialCount"])
  moreover have "[initialCount ..< initialCount + Suc (length (nxt # rest))] =
      initialCount # [initialCount + 1 ..< initialCount + 1 + Suc (length rest)]"
    by (simp add: upt_conv_Cons del: upt_Suc)
  moreover have "initialCount + length (nxt # rest) = initialCount + 1 + length rest" by simp
  ultimately show ?thesis unfolding Cons by (simp only:)
qed

theorem cold_cache_reservations_contiguous_witness:
  "seqCache newWallet = None \<and> (5::nat) + length [Inr 9, Inl (Rejected ''offline''), Inr (0::nat)] \<le> 2 ^ 53 \<and>
   reserveEach [Inr 5, Inr 9, Inl (Rejected ''offline''), Inr 0] newWallet =
     (Inr [5, 6, 7, 8], \<lparr> seqCache = Some 9, pubkey = None \<rparr>)"
  using cold_cache_reservations_contiguous
    [of newWallet 5 "[Inr 9, Inl (Rejected ''offline''), Inr 0]"]
  by (simp add: newWallet_def upt_rec jsPlusOne_def)

theorem inexact_counter_counterexample:
  "seqCache newWallet = None \<and>
   reserveEach [Inr 9007199254740991, Inr 9007199254740991, Inr 9007199254740991] newWallet =
     (Inr [9007199254740991, 9007199254740992, 9007199254740992],
      \<lparr> seqCache = Some 9007199254740992, pubkey = None \<rparr>) \<and>
   [9007199254740991 ..< 9007199254740991 + 3] =
     [9007199254740991, 9007199254740992, 9007199254740993 :: nat] \<and>
   (9007199254740991 :: nat) = 2 ^ 53 - 1"
  by (simp add: newWallet_def generateAndIncrementSeq_def jsPlusOne_def upt_rec)

section \<open>Rollback of a failed submission\<close>

lemma sendViaAggregator_seqCache:
  "sendViaAggregator env vmId from l2tx w = (r, w') \<Longrightarrow> seqCache w' = seqCache w"
  by (auto simp: sendViaAggregator_def Let_def
      split: sum.splits aggregatorCall.splits option.splits if_splits)

lemma sendViaInbox_seqCache:
  "sendViaInbox env vmId l2tx w = (r, w') \<Longrightarrow> seqCache w' = seqCache w"
  by (auto simp: sendViaInbox_def split: sum.splits)

lemma failed_message_rolls_back:
  assumes "providerGetVmID env = Inr vmId" and "signerGetAddress env = Inr from"
    and "sendTransactionMessage env l2tx w1 = (Inl err, w')"
  shows "seqCache w' = seqCache (rollbackSeq w1)"
proof (cases "providerAggregator env")
  case True
  obtain r w2 where d: "sendViaAggregator env vmId from l2tx w1 = (r, w2)"
    by (cases "sendViaAggregator env vmId from l2tx w1")
  have "seqCache w2 = seqCache w1" using d by (rule sendViaAggregator_seqCache)
  moreover have "w' = rollbackSeq w2"
    using assms True d by (cases r) (simp_all add: sendTransactionMessage_def)
  ultimately show ?thesis by (simp add: rollbackSeq_def split: option.splits)
next
  case False
  obtain r w2 where d: "sendViaInbox env vmId l2tx w1 = (r, w2)"
    by (cases "sendViaInbox env vmId l2tx w1")
  have "seqCache w2 = seqCache w1" using d by (rule sendViaInbox_seqCache)
  moreover have "w' = rollbackSeq w2"
    using assms False d by (cases r) (simp_all add: sendTransactionMessage_def)
  ultimately show ?thesis by (simp add: rollbackSeq_def split: option.splits)
qed

lemma next_after_rollback:
  assumes "generateAndIncrementSeq count w = (Inr seq, w1)"
    and "seqCache w' = seqCache (rollbackSeq w1)"
    and "seq < 2 ^ 53"
  shows "fst (generateAndIncrementSeq count w') = Inr seq"
  using assms
  by (auto simp: generateAndIncrementSeq_def rollbackSeq_def Let_def jsPlusOne_exact
      jsMinusOne_exact split: option.splits sum.splits if_splits)

text \<open>
  The part of the rollback that works: an error raised inside the \<open>try\<close> block, on the
  aggregator branch or on the inbox branch, passes the \<open>catch\<close>, and with the chain's
  count as the failed attempt left it the next reservation returns the number again.
\<close>

lemma failure_inside_try_rolls_back:
  assumes gas: "truthyBN (req_gasLimit request)" "truthyBN (req_gasPrice request)"
    and reserved: "generateAndIncrementSeq (providerGetTransactionCount env) w = (Inr seq, w1)"
    and exact: "seq < 2 ^ 53"
    and reached: "providerGetVmID env = Inr vmId" "signerGetAddress env = Inr from"
    and failed: "sendTransaction env request w = (Inl err, w')"
  shows "fst (generateAndIncrementSeq (providerGetTransactionCount env) w') =
           fst (generateAndIncrementSeq (providerGetTransactionCount env) w)
         \<and> fst (generateAndIncrementSeq (providerGetTransactionCount env) w') = Inr seq"
proof -
  let ?l2tx = "\<lparr> maxGas = req_gasLimit request, gasPriceBid = req_gasPrice request,
                   sequenceNum = seq, destAddress = req_to request,
                   payment = req_value request, calldata = req_data request \<rparr>"
  have "sendTransactionMessage env ?l2tx w1 = (Inl err, w')"
    using gas reserved failed by (simp add: sendTransaction_def)
  then have "seqCache w' = seqCache (rollbackSeq w1)"
    using reached failed_message_rolls_back by blast
  then have "fst (generateAndIncrementSeq (providerGetTransactionCount env) w') = Inr seq"
    using reserved exact next_after_rollback by blast
  then show ?thesis using reserved by simp
qed

text \<open>
  What the rollback does not cover: \<open>getVmID\<close> and \<open>getAddress\<close> are awaited before
  the \<open>try\<close>, so an error of theirs leaves the wallet as the reservation made it; and
  the promise of the aggregator's \<open>sendTransaction\<close> is not awaited, so a rejection
  of it changes nothing in what \<open>sendTransactionMessage\<close> returns.
\<close>

lemma failure_before_try_keeps_reservation:
  "providerGetVmID env = Inl e \<Longrightarrow> sendTransactionMessage env l2tx w = (Inl e, w)"
  "providerGetVmID env = Inr vmId \<Longrightarrow> signerGetAddress env = Inl e \<Longrightarrow>
   sendTransactionMessage env l2tx w = (Inl e, w)"
  by (simp_all add: sendTransactionMessage_def)

lemmas example_wallets =
  inboxRejects_def inboxAccepts_def aggregatorAccepts_def inboxTransaction_def
  someL2Transaction_def newWallet_def warmWallet_def addressUnavailable_def
  aggregatorUnreachable_def plainRequest_def

lemma hash_lengths:
  "hexDataLength ROLLUP_ID = Some 32" "hexDataLength L1_HASH = Some 32"
  by (simp_all add: hexDataLength_def ROLLUP_ID_def L1_HASH_def isHexDigit_def)

text \<open>
  C6, at the input where the code departs from it. A wallet that holds the next number
  5 reserves it, and then \<open>getAddress\<close> fails at the head of
  \<open>sendTransactionMessage\<close>, before the \<open>try\<close>: the error reaches the caller with
  the cache still at 6, so the next reservation returns 6 where the wallet before the
  attempt would have returned 5. The same is left behind when the aggregator rejects
  the transaction after its call has returned: the caller gets a handle and the cache
  stays at 6.
\<close>

theorem failure_before_try_burns_sequence:
  "generateAndIncrementSeq (providerGetTransactionCount addressUnavailable) warmWallet =
     (Inr 5, \<lparr> seqCache = Some 6, pubkey = None \<rparr>)
   \<and> sendTransaction addressUnavailable plainRequest warmWallet =
       (Inl (Rejected ''network error''), \<lparr> seqCache = Some 6, pubkey = None \<rparr>)
   \<and> fst (generateAndIncrementSeq (providerGetTransactionCount addressUnavailable)
            \<lparr> seqCache = Some 6, pubkey = None \<rparr>) = Inr 6
   \<and> fst (generateAndIncrementSeq (providerGetTransactionCount addressUnavailable)
            warmWallet) = Inr 5
   \<and> aggregatorSendTransaction aggregatorUnreachable ''0xb2'' 5 0 ''0x'' ''0x04'' ''0x51'' =
       Promised (Inl (Rejected ''connection refused''))
   \<and> sendTransaction aggregatorUnreachable plainRequest warmWallet =
       (Inr \<lparr> tx_data = ''0x'', tx_from = ''0xa1'', tx_gasLimit = 1, tx_gasPrice = 1,
               tx_hash = ROLLUP_ID, tx_nonce = 5, tx_to = ''0xb2'', tx_value = 0,
               tx_chainId = 123456789 \<rparr>,
        \<lparr> seqCache = Some 6, pubkey = Some ''0x04'' \<rparr>)"
  using hash_lengths
  by (simp add: sendTransaction_def sendTransactionMessage_def sendViaAggregator_def
      generateAndIncrementSeq_def jsPlusOne_def toNumber_def wrapTransaction_def Let_def
      example_wallets)

section \<open>The hex encoding\<close>














section \<open>From receipt to message id\<close>







lemmas event_names =
  TransactionMessageDelivered_def EthDepositMessageDelivered_def
  ERC20DepositMessageDelivered_def ERC721DepositMessageDelivered_def EB_EVENT_CDA_def



section \<open>Resolution and verification\<close>








text \<open>
  C4. For every raw result fetched for the rollup message id \<open>arbTxHash\<close> and decoded,
  when the id recomputed from its incoming message differs from \<open>arbTxHash\<close>,
  \<open>getMessageResult\<close> fails with the mismatch error, an \<open>IntegrityError\<close>, and so
  returns no result.
\<close>

theorem mismatching_id_is_fatal:
  assumes "resolveArbTxHash env txHash = Inr (Some arbTxHash)"
    and "clientGetMessageResult env arbTxHash = Inr (Some rawResult)"
    and "fromValue env (raw_val rawResult) = Inr res"
    and "incomingMessageID env (incoming res) \<noteq> arbTxHash"
  shows "getMessageResult env txHash =
           Inl (TxHashMismatch arbTxHash (incomingMessageID env (incoming res)))
         \<and> classify (TxHashMismatch arbTxHash (incomingMessageID env (incoming res))) = IntegrityError"
  using assms by (auto simp: getMessageResult_def fetchMessageResult_def Let_def)

lemma reduce_foldl: "reduce f xs acc = foldl f acc xs"
  by (induction xs arbitrary: acc) simp_all

lemma processLogsProof_iff:
  "processLogsProof env v prf \<longleftrightarrow>
     foldl (solidityKeccak256 env)
       (solidityKeccak256 env (logPreHash prf) (valueHash env v)) (logValHashes prf)
     = logPostHash prf"
  by (auto simp: processLogsProof_def Let_def reduce_foldl)

text \<open>
  C2, in the form that holds. \<open>processLogsProof\<close> holds exactly when folding the sibling hashes in
  order onto \<open>hash(logPreHash, hash(value))\<close> gives \<open>logPostHash\<close>. For a fetched
  result whose recomputed id matches and that carries a proof: when its node names a
  base-chain transaction (\<open>l1TxHash\<close>) and the fold differs, \<open>getMessageResult\<close> fails
  with \<open>Failed to prove val is in logPostHash\<close>, a \<open>ProofInvalidError\<close>; when the node
  names none, the proof is not looked at and the result is returned unconfirmed.
\<close>

theorem log_inclusion_checked_when_asserted:
  assumes "resolveArbTxHash env txHash = Inr (Some arbTxHash)"
    and "clientGetMessageResult env arbTxHash = Inr (Some rawResult)"
    and "fromValue env (raw_val rawResult) = Inr res"
    and "incomingMessageID env (incoming res) = arbTxHash"
    and "raw_proof rawResult = Some prf"
    and "raw_nodeInfo rawResult = Some ni"
  shows "(processLogsProof env (raw_val rawResult) prf \<longleftrightarrow>
            foldl (solidityKeccak256 env)
              (solidityKeccak256 env (logPreHash prf) (valueHash env (raw_val rawResult)))
              (logValHashes prf)
            = logPostHash prf)
       \<and> (l1TxHash ni \<noteq> None \<and> \<not> processLogsProof env (raw_val rawResult) prf \<longrightarrow>
            getMessageResult env txHash = Inl FailedToProveVal
            \<and> classify FailedToProveVal = ProofInvalidError)
       \<and> (l1TxHash ni = None \<longrightarrow>
            getMessageResult env txHash =
              Inr (Some \<lparr> mr_result = res, mr_txHash = arbTxHash, mr_nodeInfo = Some ni \<rparr>))"
  using assms
  by (auto simp: getMessageResult_def fetchMessageResult_def Let_def processLogsProof_iff)

text \<open>
  C3. Once the \<open>RollupAsserted\<close> event is located in the mined transaction's logs, each
  of the three checks is fatal when it fails: the log's address against the rollup
  address (compared without regard to letter case, as addresses are), the event's field
  6 against \<open>proof.logPostHash\<close>, and its field 7 against \<open>nodeInfo.nodeHash\<close>; with all
  three passing the receipt is returned. A node-hash mismatch makes \<open>getMessageResult\<close>
  fail even though \<open>processLogsProof\<close> passed.
\<close>

theorem assertion_checks_are_fatal:
  assumes "l1TxHash ni = Some l1"
    and "ethWaitForTransaction env l1 = Inr receipt"
    and "rc_logs receipt = Some lgs"
    and "arbRollupConn env = Inr parseLog"
    and "findAsserted parseLog lgs = Inr (Some (rawLg, cda))"
    and "getVmID env = Inr vmId"
  shows "(toLowerCase (log_address rawLg) \<noteq> toLowerCase vmId
            \<or> element (ev_fields (ev_values cda)) 6 \<noteq> Some (logPostHash prf)
            \<or> element (ev_fields (ev_values cda)) 7 \<noteq> Some (nodeHash ni) \<longrightarrow>
          (\<exists>e. processConfirmedDisputableAssertion env ni prf = Inl e
                \<and> classify e = ProofInvalidError))
       \<and> (toLowerCase (log_address rawLg) = toLowerCase vmId
            \<and> element (ev_fields (ev_values cda)) 6 = Some (logPostHash prf)
            \<and> element (ev_fields (ev_values cda)) 7 = Some (nodeHash ni) \<longrightarrow>
          processConfirmedDisputableAssertion env ni prf = Inr receipt)
       \<and> (resolveArbTxHash env txHash = Inr (Some arbTxHash)
            \<and> clientGetMessageResult env arbTxHash = Inr (Some rawResult)
            \<and> fromValue env (raw_val rawResult) = Inr res
            \<and> incomingMessageID env (incoming res) = arbTxHash
            \<and> raw_proof rawResult = Some prf \<and> raw_nodeInfo rawResult = Some ni
            \<and> processLogsProof env (raw_val rawResult) prf
            \<and> element (ev_fields (ev_values cda)) 7 \<noteq> Some (nodeHash ni) \<longrightarrow>
          (\<exists>e. getMessageResult env txHash = Inl e \<and> classify e = ProofInvalidError))"
proof -
  have checks: "processConfirmedDisputableAssertion env ni prf =
      (if toLowerCase (log_address rawLg) \<noteq> toLowerCase vmId then
         Inl (DifferentAddress (log_address rawLg) vmId)
       else if element (ev_fields (ev_values cda)) 6 \<noteq> Some (logPostHash prf) then
         Inl (LogPostHashMismatch
                (case element (ev_fields (ev_values cda)) 6 of
                   Some h \<Rightarrow> h | None \<Rightarrow> ''undefined'')
                (logPostHash prf))
       else if element (ev_fields (ev_values cda)) 7 \<noteq> Some (nodeHash ni) then
         Inl (NodeHashMismatch
                (case element (ev_fields (ev_values cda)) 7 of
                   Some h \<Rightarrow> h | None \<Rightarrow> ''undefined'')
                (nodeHash ni))
       else Inr receipt)"
    using assms by (simp add: processConfirmedDisputableAssertion_def)
  have fatal: "\<exists>e. processConfirmedDisputableAssertion env ni prf = Inl e
                \<and> classify e = ProofInvalidError"
    if "toLowerCase (log_address rawLg) \<noteq> toLowerCase vmId
        \<or> element (ev_fields (ev_values cda)) 6 \<noteq> Some (logPostHash prf)
        \<or> element (ev_fields (ev_values cda)) 7 \<noteq> Some (nodeHash ni)"
    using that by (simp add: checks)
  have reached: "\<exists>e. getMessageResult env txHash = Inl e \<and> classify e = ProofInvalidError"
    if r: "resolveArbTxHash env txHash = Inr (Some arbTxHash)"
      "clientGetMessageResult env arbTxHash = Inr (Some rawResult)"
      "fromValue env (raw_val rawResult) = Inr res"
      "incomingMessageID env (incoming res) = arbTxHash"
      "raw_proof rawResult = Some prf" "raw_nodeInfo rawResult = Some ni"
      "processLogsProof env (raw_val rawResult) prf"
      and m: "element (ev_fields (ev_values cda)) 7 \<noteq> Some (nodeHash ni)"
  proof -
    obtain e where e: "processConfirmedDisputableAssertion env ni prf = Inl e"
      "classify e = ProofInvalidError"
      using fatal m by blast
    have "getMessageResult env txHash = Inl e"
      using r e(1) assms(1) by (simp add: getMessageResult_def fetchMessageResult_def Let_def)
    then show ?thesis using e(2) by blast
  qed
  show ?thesis
    using fatal reached checks by (intro conjI impI) (blast, simp, blast)
qed

text \<open>
  C10. For the addresses \<open>0x..64\<close> and \<open>0x..65\<close> the \<open>getCode\<close> case of \<open>perform\<close>
  returns \<open>0x100\<close> whatever the collaborators would answer; for every other address
  it returns what the ArbInfo contract answers.
\<close>

theorem system_addresses_have_constant_code:
  "perform_getCode env ''0x0000000000000000000000000000000000000064'' = Inr ''0x100''
   \<and> perform_getCode env ''0x0000000000000000000000000000000000000065'' = Inr ''0x100''
   \<and> (addr \<noteq> ''0x0000000000000000000000000000000000000064''
        \<and> addr \<noteq> ''0x0000000000000000000000000000000000000065'' \<longrightarrow>
      perform_getCode env addr = arbInfoGetCode env addr)"
  by (simp add: perform_getCode_def ARB_SYS_ADDRESS_def ARB_INFO_ADDRESS_def)

lemma missing_gas_is_rejected_before_reserving:
  "(\<not> truthyBN (req_gasLimit request) \<longrightarrow>
      sendTransaction env request w = (Inl MustSpecifyGasLimit, w))
   \<and> (truthyBN (req_gasLimit request) \<and> \<not> truthyBN (req_gasPrice request) \<longrightarrow>
      sendTransaction env request w = (Inl MustSpecifyGasPrice, w))"
  by (simp add: sendTransaction_def)

lemma taken_tag_other_than_pending_latest:
  "takenTag blockTagArg = Some tag \<Longrightarrow> tag \<noteq> TagString ''pending'' \<Longrightarrow>
   tag \<noteq> TagString ''latest'' \<Longrightarrow> call env request blockTagArg = Inl InvalidBlockTag"
  by (cases tag) (simp_all add: call_def Let_def)

text \<open>
  C9, at the input where the code departs from it. The numeric block tag \<open>0\<close> (and
  the empty string) does not pass the test \<open>if (blockTag)\<close>, so \<open>call\<close> treats it
  as no tag at all and answers from the latest state, where the tag \<open>5\<close> is refused
  with \<open>Invalid block tag\<close>. The two lemmas before it are the part that holds.
\<close>

theorem block_tag_zero_is_served_as_latest:
  "takenTag (Some (Plain (TagNumber 0))) = None
   \<and> takenTag (Some (Plain (TagNumber 5))) = Some (TagNumber 5)
   \<and> call env request (Some (Plain (TagNumber 0))) = call env request None
   \<and> call env request (Some (Plain (TagString []))) = call env request None
   \<and> call env request (Some (Plain (TagNumber 5))) = Inl InvalidBlockTag
   \<and> call exampleProvider
        \<lparr> creq_from = None, creq_to = ''0xb2'', creq_data = ''0x'',
          creq_gasLimit = None, creq_gasPrice = None \<rparr>
        (Some (Plain (TagNumber 0))) = Inr ''0x2a''"
  by (simp add: call_def Let_def exampleProvider_def)

section \<open>Witnesses in the example world\<close>

lemmas example_world =
  exampleProvider_def L1_HASH_def ROLLUP_ID_def PENDING_ID_def UNKNOWN_ID_def ASSERTION_TX_def
  ROLLUP_ADDRESS_def NODE_HASH_def assertedNode_def validProof_def bogusProof_def
  assertedLog_def assertedEvent_def rollupParser_def



theorem mismatching_id_is_fatal_witness:
  "resolveArbTxHash forgingValidator ROLLUP_ID = Inr (Some ROLLUP_ID)
   \<and> clientGetMessageResult forgingValidator ROLLUP_ID =
        Inr (Some \<lparr> raw_val = PENDING_ID, raw_nodeInfo = None, raw_proof = None \<rparr>)
   \<and> incomingMessageID forgingValidator PENDING_ID = PENDING_ID
   \<and> PENDING_ID \<noteq> ROLLUP_ID
   \<and> getMessageResult forgingValidator ROLLUP_ID = Inl (TxHashMismatch ROLLUP_ID PENDING_ID)
   \<and> classify (TxHashMismatch ROLLUP_ID PENDING_ID) = IntegrityError"
  using mismatching_id_is_fatal
    [of forgingValidator ROLLUP_ID ROLLUP_ID
        "\<lparr> raw_val = PENDING_ID, raw_nodeInfo = None, raw_proof = None \<rparr>"
        "\<lparr> resultCode = Return, returnData = ''0x2a'', incoming = PENDING_ID \<rparr>"]
  by (simp add: forgingValidator_def resolveArbTxHash_def example_world)

theorem log_inclusion_checked_when_asserted_witness:
  "resolveArbTxHash lyingValidator ROLLUP_ID = Inr (Some ROLLUP_ID)
   \<and> clientGetMessageResult lyingValidator ROLLUP_ID =
        Inr (Some \<lparr> raw_val = ROLLUP_ID, raw_nodeInfo = Some assertedNode,
                    raw_proof = Some bogusProof \<rparr>)
   \<and> l1TxHash assertedNode \<noteq> None
   \<and> logValHashes bogusProof = []
   \<and> logPostHash bogusProof \<noteq>
        solidityKeccak256 lyingValidator (logPreHash bogusProof) (valueHash lyingValidator ROLLUP_ID)
   \<and> \<not> processLogsProof lyingValidator ROLLUP_ID bogusProof
   \<and> getMessageResult lyingValidator ROLLUP_ID = Inl FailedToProveVal"
  using log_inclusion_checked_when_asserted
    [of lyingValidator ROLLUP_ID ROLLUP_ID
        "\<lparr> raw_val = ROLLUP_ID, raw_nodeInfo = Some assertedNode, raw_proof = Some bogusProof \<rparr>"
        "\<lparr> resultCode = Return, returnData = ''0x2a'', incoming = ROLLUP_ID \<rparr>"
        bogusProof assertedNode]
  by (simp add: lyingValidator_def resolveArbTxHash_def example_world)

theorem unasserted_result_counterexample:
  "clientGetMessageResult exampleProvider PENDING_ID =
     Inr (Some \<lparr> raw_val = PENDING_ID, raw_nodeInfo = Some (assertedNode\<lparr>l1TxHash := None\<rparr>),
                 raw_proof = Some bogusProof \<rparr>)
   \<and> logValHashes bogusProof = []
   \<and> logPostHash bogusProof \<noteq>
        solidityKeccak256 exampleProvider (logPreHash bogusProof) (valueHash exampleProvider PENDING_ID)
   \<and> \<not> processLogsProof exampleProvider PENDING_ID bogusProof
   \<and> getMessageResult exampleProvider PENDING_ID =
        Inr (Some \<lparr> mr_result = \<lparr> resultCode = Return, returnData = ''0x2a'', incoming = PENDING_ID \<rparr>,
                    mr_txHash = PENDING_ID,
                    mr_nodeInfo = Some (assertedNode\<lparr>l1TxHash := None\<rparr>) \<rparr>)"
  by (simp add: getMessageResult_def resolveArbTxHash_def fetchMessageResult_def
      processLogsProof_def Let_def example_world)

lemma lower_rollup_address:
  "toLowerCase ROLLUP_ADDRESS = ''0xc1c1c1c1c1c1c1c1c1c1c1c1c1c1c1c1c1c1c1c1''"
  by code_simp

lemma lower_asserted_log:
  "toLowerCase (log_address assertedLog) = ''0xc1c1c1c1c1c1c1c1c1c1c1c1c1c1c1c1c1c1c1c1''"
  by code_simp

lemmas lower_example = lower_rollup_address lower_asserted_log

theorem assertion_checks_are_fatal_witness:
  "l1TxHash wrongNode = Some ASSERTION_TX
   \<and> ethWaitForTransaction wrongNodeValidator ASSERTION_TX =
        Inr \<lparr> rc_logs = Some [otherLog, assertedLog], rc_confirmations = Some 8 \<rparr>
   \<and> arbRollupConn wrongNodeValidator = Inr rollupParser
   \<and> findAsserted rollupParser [otherLog, assertedLog] = Inr (Some (assertedLog, assertedEvent))
   \<and> getVmID wrongNodeValidator = Inr ROLLUP_ADDRESS
   \<and> toLowerCase (log_address assertedLog) = toLowerCase ROLLUP_ADDRESS
   \<and> element (ev_fields (ev_values assertedEvent)) 6 = Some (logPostHash validProof)
   \<and> element (ev_fields (ev_values assertedEvent)) 7 = Some NODE_HASH
   \<and> NODE_HASH \<noteq> nodeHash wrongNode
   \<and> processLogsProof wrongNodeValidator ROLLUP_ID validProof
   \<and> processConfirmedDisputableAssertion wrongNodeValidator wrongNode validProof =
        Inl (NodeHashMismatch NODE_HASH (nodeHash wrongNode))
   \<and> getMessageResult wrongNodeValidator ROLLUP_ID =
        Inl (NodeHashMismatch NODE_HASH (nodeHash wrongNode))
   \<and> classify (NodeHashMismatch NODE_HASH (nodeHash wrongNode)) = ProofInvalidError"
proof -
  have located:
    "l1TxHash wrongNode = Some ASSERTION_TX"
    "ethWaitForTransaction wrongNodeValidator ASSERTION_TX =
        Inr \<lparr> rc_logs = Some [otherLog, assertedLog], rc_confirmations = Some 8 \<rparr>"
    "rc_logs \<lparr> rc_logs = Some [otherLog, assertedLog], rc_confirmations = Some 8 \<rparr> =
        Some [otherLog, assertedLog]"
    "arbRollupConn wrongNodeValidator = Inr rollupParser"
    "findAsserted rollupParser [otherLog, assertedLog] = Inr (Some (assertedLog, assertedEvent))"
    "getVmID wrongNodeValidator = Inr ROLLUP_ADDRESS"
    by (simp_all add: wrongNodeValidator_def wrongNode_def getVmID_def example_world
        otherLog_def otherEvent_def event_names)
  have checks:
    "toLowerCase (log_address assertedLog) = toLowerCase ROLLUP_ADDRESS"
    "element (ev_fields (ev_values assertedEvent)) 6 = Some (logPostHash validProof)"
    "element (ev_fields (ev_values assertedEvent)) 7 = Some NODE_HASH"
    "NODE_HASH \<noteq> nodeHash wrongNode"
    by (simp_all add: lower_example assertedEvent_def someValues_def wrongNode_def
        NODE_HASH_def eval_nat_numeral)
  have fetched:
    "resolveArbTxHash wrongNodeValidator ROLLUP_ID = Inr (Some ROLLUP_ID)"
    "clientGetMessageResult wrongNodeValidator ROLLUP_ID =
       Inr (Some \<lparr> raw_val = ROLLUP_ID, raw_nodeInfo = Some wrongNode,
                   raw_proof = Some validProof \<rparr>)"
    "fromValue wrongNodeValidator ROLLUP_ID =
       Inr \<lparr> resultCode = Return, returnData = ''0x2a'', incoming = ROLLUP_ID \<rparr>"
    "incomingMessageID wrongNodeValidator ROLLUP_ID = ROLLUP_ID"
    "processLogsProof wrongNodeValidator ROLLUP_ID validProof"
    by (simp_all add: wrongNodeValidator_def resolveArbTxHash_def processLogsProof_def
        Let_def example_world)
  have pcda: "processConfirmedDisputableAssertion wrongNodeValidator wrongNode validProof =
        Inl (NodeHashMismatch NODE_HASH (nodeHash wrongNode))"
    using located checks by (simp add: processConfirmedDisputableAssertion_def)
  have gmr: "getMessageResult wrongNodeValidator ROLLUP_ID =
        Inl (NodeHashMismatch NODE_HASH (nodeHash wrongNode))"
    using fetched pcda located(1)
    by (simp add: getMessageResult_def fetchMessageResult_def Let_def)
  have "\<exists>e. getMessageResult wrongNodeValidator ROLLUP_ID = Inl e \<and> classify e = ProofInvalidError"
    using assertion_checks_are_fatal
      [OF located, of validProof ROLLUP_ID ROLLUP_ID
         "\<lparr> raw_val = ROLLUP_ID, raw_nodeInfo = Some wrongNode, raw_proof = Some validProof \<rparr>"
         "\<lparr> resultCode = Return, returnData = ''0x2a'', incoming = ROLLUP_ID \<rparr>"]
      fetched checks
    by simp
  then have "classify (NodeHashMismatch NODE_HASH (nodeHash wrongNode)) = ProofInvalidError"
    using gmr by simp
  then show ?thesis
    using located checks fetched pcda gmr by simp
qed

theorem system_addresses_have_constant_code_witness:
  "''0x00000000000000000000000000000000000000b2'' \<noteq> ''0x0000000000000000000000000000000000000064''
   \<and> ''0x00000000000000000000000000000000000000b2'' \<noteq> ''0x0000000000000000000000000000000000000065''
   \<and> perform_getCode exampleProvider ''0x00000000000000000000000000000000000000b2'' = Inr ''0x6080''
   \<and> perform_getCode exampleProvider ''0x0000000000000000000000000000000000000064'' = Inr ''0x100''
   \<and> perform_getCode exampleProvider ''0x0000000000000000000000000000000000000065'' = Inr ''0x100''"
  using system_addresses_have_constant_code
    [of exampleProvider "''0x00000000000000000000000000000000000000b2''"]
  by (simp add: exampleProvider_def)

section \<open>Handles and their resolution\<close>













end
